theory Spec2Isabelle
  imports Main
begin

section \<open>The session negotiation component of App.tsx\<close>

text \<open>
  The component keeps its state in React state cells (\<open>status\<close>, \<open>role\<close>, \<open>queueInfo\<close>,
  \<open>chat\<close>, \<open>draft\<close>) and in refs (\<open>socketRef\<close>, \<open>pcRef\<close>, \<open>localStreamRef\<close>, the two video
  elements). The model is one record of these cells, an explicit store of every
  \<open>RTCPeerConnection\<close> the component has constructed (so that a transport that is no longer
  referenced can still be observed), the list of events emitted on the socket, the list of
  rejections that no handler caught, and the list of suspended \<open>async\<close> handlers.

  JavaScript is single threaded: a handler runs until it returns or reaches an \<open>await\<close> on a
  browser call that is still pending (\<open>getUserMedia\<close>, \<open>createOffer\<close>, \<open>createAnswer\<close>,
  \<open>setLocalDescription\<close>, \<open>setRemoteDescription\<close>, \<open>addIceCandidate\<close>). There the handler is
  suspended, other events may be handled, and the handler continues when the browser settles
  the call. An \<open>await\<close> on a value that is already there (the cached stream in
  \<open>ensureLocalMedia\<close>) lets no socket or user event in between, and is modelled as no
  suspension. The outcome of every browser call is an input of the model.

  Of the presentation layer only the mounting of the two video elements is modelled;
  \<open>sendChat\<close>, \<open>toggleMic\<close>, \<open>toggleCam\<close> and the markup are left out.
\<close>

subsection \<open>Data\<close>

type_synonym stream = nat
type_synonym sdp = string
type_synonym candidate = string
type_synonym error = string
type_synonym pcid = nat

text \<open>\<open>type Role = "caller" | "callee" | null\<close>: a \<open>role option\<close>, \<open>None\<close> for \<open>null\<close>.\<close>

datatype role = caller | callee

record QueueInfo =
  position :: int
  etaSec :: int
  waitedSec :: int

record ChatMsg =
  msg_id :: string
  msg_text :: string
  ts :: int
  mine :: bool

text \<open>
  The part of an \<open>RTCPeerConnection\<close> the component touches. The three event hooks hold either
  \<open>null\<close> or the one closure \<open>createPeerConnection\<close> installs, hence a flag each.
\<close>

record RTCPeerConnection =
  onicecandidate :: bool
  ontrack :: bool
  onconnectionstatechange :: bool
  connectionState :: string
  closed :: bool
  senders :: "stream list"
  localDescription :: "sdp option"
  remoteDescription :: "sdp option"
  remoteCandidates :: "candidate list"

text \<open>Events emitted on the socket, by their wire names.\<close>

datatype out_event =
    E_hello string
  | E_find
  | E_next
  | E_stop
  | E_rtc_offer sdp
  | E_rtc_answer sdp
  | E_rtc_ice candidate

text \<open>
  A suspended handler: the browser call it waits for and what it needs to continue.
  \<open>createPeerConnection\<close> is awaited by the \<open>matched\<close> handler and by the \<open>rtc-offer\<close> handler;
  \<open>awaiter\<close> records which one continues when it returns.
\<close>

datatype awaiter = FromMatched "role option" | FromRtcOffer sdp

datatype task =
    StartMedia
  | CreateMedia pcid awaiter
  | MatchedCreateOffer pcid
  | MatchedSetLocal pcid sdp
  | OfferSetRemote pcid sdp
  | OfferCreateAnswer pcid
  | OfferSetLocal pcid sdp
  | AnswerSetRemote pcid sdp
  | IceAdd pcid candidate

record state =
  socketRef :: bool
  pcRef :: "pcid option"
  heap :: "RTCPeerConnection list"
  localStreamRef :: "stream option"
  localVideoRef :: "stream option option"
  remoteVideoRef :: "stream option option"
  status :: string
  role :: "role option"
  queueInfo :: "QueueInfo option"
  chat :: "ChatMsg list"
  draft :: string
  outbox :: "out_event list"
  tasks :: "task list"
  unhandled :: "error list"

text \<open>
  \<open>localVideoRef\<close> and \<open>remoteVideoRef\<close>: \<open>None\<close> while the video element is not rendered
  (\<open>ref.current\<close> is \<open>null\<close>), \<open>Some src\<close> with the element's \<open>srcObject\<close> otherwise.
\<close>

definition init :: state where
  "init = \<lparr> socketRef = False, pcRef = None, heap = [], localStreamRef = None,
            localVideoRef = None, remoteVideoRef = None, status = ''Idle'', role = None,
            queueInfo = None, chat = [], draft = [], outbox = [], tasks = [],
            unhandled = [] \<rparr>"

subsection \<open>Primitive effects\<close>

definition setStatus :: "string \<Rightarrow> state \<Rightarrow> state" where
  "setStatus t s = s\<lparr>status := t\<rparr>"

text \<open>\<open>socket.emit(...)\<close> inside the effect, on the socket the effect created.\<close>

definition emit :: "out_event \<Rightarrow> state \<Rightarrow> state" where
  "emit e s = s\<lparr>outbox := outbox s @ [e]\<rparr>"

text \<open>\<open>socketRef.current?.emit(...)\<close>: nothing when the ref is \<open>null\<close>.\<close>

definition emit_ref :: "out_event \<Rightarrow> state \<Rightarrow> state" where
  "emit_ref e s = (if socketRef s then emit e s else s)"

text \<open>An \<open>async\<close> handler whose promise rejects: nobody awaits it, the rejection is unhandled.\<close>

definition reject :: "error \<Rightarrow> state \<Rightarrow> state" where
  "reject e s = s\<lparr>unhandled := unhandled s @ [e]\<rparr>"

definition suspend :: "task \<Rightarrow> state \<Rightarrow> state" where
  "suspend t s = s\<lparr>tasks := tasks s @ [t]\<rparr>"

definition upd_pc :: "pcid \<Rightarrow> (RTCPeerConnection \<Rightarrow> RTCPeerConnection) \<Rightarrow> state \<Rightarrow> state" where
  "upd_pc p f s = (if p < length (heap s) then s\<lparr>heap := (heap s)[p := f (heap s ! p)]\<rparr> else s)"

definition new_pc :: RTCPeerConnection where
  "new_pc = \<lparr> onicecandidate = False, ontrack = False, onconnectionstatechange = False,
              connectionState = ''new'', closed = False, senders = [],
              localDescription = None, remoteDescription = None, remoteCandidates = [] \<rparr>"

text \<open>\<open>pc.close()\<close> as the browser performs it.\<close>

definition pc_close :: "RTCPeerConnection \<Rightarrow> RTCPeerConnection" where
  "pc_close pc = pc\<lparr>closed := True, connectionState := ''closed''\<rparr>"

subsection \<open>The component's functions\<close>

definition cleanupPeerConnection :: "state \<Rightarrow> state" where
  "cleanupPeerConnection s =
     (let s1 = (case pcRef s of
                  None \<Rightarrow> s
                | Some p \<Rightarrow>
                    (upd_pc p (\<lambda>pc. pc_close (pc\<lparr>onicecandidate := False, ontrack := False,
                                                 onconnectionstatechange := False\<rparr>)) s)
                    \<lparr>pcRef := None\<rparr>);
          s2 = (case remoteVideoRef s1 of
                  None \<Rightarrow> s1
                | Some src \<Rightarrow> s1\<lparr>remoteVideoRef := Some None\<rparr>)
      in s2\<lparr>role := None\<rparr>)"

definition resetConversationUI :: "state \<Rightarrow> state" where
  "resetConversationUI s = s\<lparr>chat := [], draft := []\<rparr>"

text \<open>\<open>ensureLocalMedia\<close> after \<open>getUserMedia\<close> has resolved with \<open>st\<close>.\<close>

definition ensureLocalMedia_resolved :: "stream \<Rightarrow> state \<Rightarrow> state" where
  "ensureLocalMedia_resolved st s =
     (let s1 = s\<lparr>localStreamRef := Some st\<rparr>
      in case localVideoRef s1 of
           None \<Rightarrow> s1
         | Some src \<Rightarrow> s1\<lparr>localVideoRef := Some (Some st)\<rparr>)"

text \<open>What the handler that awaited \<open>createPeerConnection\<close> does with the returned \<open>pc\<close>.\<close>

fun after_create :: "awaiter \<Rightarrow> pcid \<Rightarrow> state \<Rightarrow> state" where
  "after_create (FromMatched r) p s =
     (if r = Some caller then suspend (MatchedCreateOffer p) s else s)"
| "after_create (FromRtcOffer d) p s = suspend (OfferSetRemote p d) s"

text \<open>
  \<open>createPeerConnection\<close> from the point where \<open>ensureLocalMedia\<close> has returned \<open>st\<close>:
  the tracks are added, the three hooks installed, and the awaiting handler continues.
  \<open>addTrack\<close> throws \<open>InvalidStateError\<close> on a connection that was closed in the meantime,
  which rejects the awaiting handler.
\<close>

definition createPeerConnection_attach :: "pcid \<Rightarrow> stream \<Rightarrow> awaiter \<Rightarrow> state \<Rightarrow> state" where
  "createPeerConnection_attach p st k s =
     (if p < length (heap s) \<and> closed (heap s ! p) then reject ''InvalidStateError'' s
      else after_create k p
             (upd_pc p (\<lambda>pc. pc\<lparr>senders := senders pc @ [st], ontrack := True,
                                 onicecandidate := True, onconnectionstatechange := True\<rparr>) s))"

definition createPeerConnection :: "awaiter \<Rightarrow> state \<Rightarrow> state" where
  "createPeerConnection k s =
     (let p = length (heap s);
          s1 = s\<lparr>heap := heap s @ [new_pc], pcRef := Some p\<rparr>
      in case localStreamRef s1 of
           Some st \<Rightarrow> createPeerConnection_attach p st k s1
         | None \<Rightarrow> suspend (CreateMedia p k) s1)"

text \<open>\<open>start\<close> after \<open>await ensureLocalMedia()\<close>.\<close>

definition start_granted :: "state \<Rightarrow> state" where
  "start_granted s =
     emit_ref E_find
       ((resetConversationUI (setStatus ''Searching match...'' s))\<lparr>queueInfo := None\<rparr>)"

definition start :: "state \<Rightarrow> state" where
  "start s =
     (let s1 = setStatus ''Requesting camera...'' s
      in case localStreamRef s1 of
           Some st \<Rightarrow> start_granted s1
         | None \<Rightarrow> suspend StartMedia s1)"

definition next_fn :: "state \<Rightarrow> state" where
  "next_fn s =
     emit_ref E_find
       (emit_ref E_next
          ((resetConversationUI (cleanupPeerConnection (setStatus ''Next...'' s)))
             \<lparr>queueInfo := None\<rparr>))"

definition stop :: "state \<Rightarrow> state" where
  "stop s =
     emit_ref E_stop
       ((resetConversationUI (cleanupPeerConnection (setStatus ''Stopped'' s)))
          \<lparr>queueInfo := None\<rparr>)"

subsection \<open>The effect: mounting, and the socket handlers\<close>

definition mount :: "string \<Rightarrow> state \<Rightarrow> state" where
  "mount clientId s = emit (E_hello clientId) (s\<lparr>socketRef := True\<rparr>)"

definition unmount :: "state \<Rightarrow> state" where
  "unmount s = cleanupPeerConnection (s\<lparr>socketRef := False\<rparr>)"

text \<open>
  Once \<open>onboardingDone\<close> is set React renders the call screen: the two \<open>video\<close> elements
  exist from then on and the refs point to them.
\<close>

definition render_stage :: "state \<Rightarrow> state" where
  "render_stage s =
     s\<lparr>localVideoRef := Some (case localVideoRef s of None \<Rightarrow> None | Some src \<Rightarrow> src),
       remoteVideoRef := Some (case remoteVideoRef s of None \<Rightarrow> None | Some src \<Rightarrow> src)\<rparr>"

text \<open>The template literal \<open>`${role}`\<close>.\<close>

fun role_str :: "role option \<Rightarrow> string" where
  "role_str (Some caller) = ''caller''"
| "role_str (Some callee) = ''callee''"
| "role_str None = ''null''"

definition on_matched :: "role option \<Rightarrow> state \<Rightarrow> state" where
  "on_matched r s =
     createPeerConnection (FromMatched r)
       (setStatus (''Matched as '' @ role_str r)
          (resetConversationUI ((s\<lparr>role := r\<rparr>)\<lparr>queueInfo := None\<rparr>)))"

definition on_partner_left :: "state \<Rightarrow> state" where
  "on_partner_left s =
     emit E_find
       (resetConversationUI (cleanupPeerConnection (setStatus ''Partner left. Waiting...'' s)))"

definition on_reset :: "state \<Rightarrow> state" where
  "on_reset s = resetConversationUI (cleanupPeerConnection (setStatus ''Reset'' s))"

definition on_chat_message :: "string \<Rightarrow> string \<Rightarrow> int \<Rightarrow> state \<Rightarrow> state" where
  "on_chat_message i t n s =
     s\<lparr>chat := chat s @ [\<lparr>msg_id = i, msg_text = t, ts = n, mine = False\<rparr>]\<rparr>"

definition on_rtc_offer :: "sdp \<Rightarrow> state \<Rightarrow> state" where
  "on_rtc_offer d s =
     (case pcRef s of
        Some p \<Rightarrow> suspend (OfferSetRemote p d) s
      | None \<Rightarrow> createPeerConnection (FromRtcOffer d) s)"

definition on_rtc_answer :: "sdp \<Rightarrow> state \<Rightarrow> state" where
  "on_rtc_answer d s =
     (case pcRef s of
        None \<Rightarrow> s
      | Some p \<Rightarrow> suspend (AnswerSetRemote p d) s)"

definition on_rtc_ice :: "candidate \<Rightarrow> state \<Rightarrow> state" where
  "on_rtc_ice c s =
     (case pcRef s of
        None \<Rightarrow> s
      | Some p \<Rightarrow> suspend (IceAdd p c) s)"

datatype in_event =
    In_connect
  | In_welcome
  | In_reconnected
  | In_waiting
  | In_queue_status QueueInfo
  | In_queue_timeout
  | In_matched "role option"
  | In_partner_left
  | In_reset
  | In_chat_message string string int
  | In_rtc_offer sdp
  | In_rtc_answer sdp
  | In_rtc_ice candidate

fun on_socket :: "in_event \<Rightarrow> state \<Rightarrow> state" where
  "on_socket In_connect s = setStatus ''Connected to signaling'' s"
| "on_socket In_welcome s = setStatus ''Connected'' s"
| "on_socket In_reconnected s = setStatus ''Reconnected'' s"
| "on_socket In_waiting s = setStatus ''Waiting for partner...'' s"
| "on_socket (In_queue_status info) s = s\<lparr>queueInfo := Some info\<rparr>"
| "on_socket In_queue_timeout s = setStatus ''Still waiting... (no partner yet)'' s"
| "on_socket (In_matched r) s = on_matched r s"
| "on_socket In_partner_left s = on_partner_left s"
| "on_socket In_reset s = on_reset s"
| "on_socket (In_chat_message i t n) s = on_chat_message i t n s"
| "on_socket (In_rtc_offer d) s = on_rtc_offer d s"
| "on_socket (In_rtc_answer d) s = on_rtc_answer d s"
| "on_socket (In_rtc_ice c) s = on_rtc_ice c s"

subsection \<open>The hooks of a peer connection\<close>

text \<open>
  What the browser reports on connection \<open>p\<close>. A hook that is \<open>null\<close> is not called. The
  browser has updated \<open>pc.connectionState\<close> before it fires \<open>connectionstatechange\<close>.
\<close>

datatype pc_event =
    IceCandidate "candidate option"
  | Track stream
  | ConnectionStateChange string

fun on_pc :: "pcid \<Rightarrow> pc_event \<Rightarrow> state \<Rightarrow> state" where
  "on_pc p (IceCandidate c) s =
     (if p < length (heap s) \<and> onicecandidate (heap s ! p)
      then (case c of Some x \<Rightarrow> emit_ref (E_rtc_ice x) s | None \<Rightarrow> s)
      else s)"
| "on_pc p (Track st) s =
     (if p < length (heap s) \<and> ontrack (heap s ! p)
      then (case remoteVideoRef s of
              None \<Rightarrow> s
            | Some src \<Rightarrow> s\<lparr>remoteVideoRef := Some (Some st)\<rparr>)
      else s)"
| "on_pc p (ConnectionStateChange c) s =
     (if p < length (heap s)
      then (let s1 = upd_pc p (\<lambda>pc. pc\<lparr>connectionState := c\<rparr>) s
            in if onconnectionstatechange (heap s ! p) then setStatus (''RTC: '' @ c) s1 else s1)
      else s)"

subsection \<open>Continuing a suspended handler\<close>

datatype outcome =
    GotStream stream
  | GotSdp sdp
  | Settled
  | Threw error

text \<open>Which outcomes the call a task waits for can have.\<close>

fun accepts :: "task \<Rightarrow> outcome \<Rightarrow> bool" where
  "accepts t (Threw e) = True"
| "accepts StartMedia (GotStream st) = True"
| "accepts (CreateMedia p k) (GotStream st) = True"
| "accepts (MatchedCreateOffer p) (GotSdp d) = True"
| "accepts (OfferCreateAnswer p) (GotSdp d) = True"
| "accepts (MatchedSetLocal p d) Settled = True"
| "accepts (OfferSetRemote p d) Settled = True"
| "accepts (OfferSetLocal p d) Settled = True"
| "accepts (AnswerSetRemote p d) Settled = True"
| "accepts (IceAdd p c) Settled = True"
| "accepts t r = False"

fun resume :: "task \<Rightarrow> outcome \<Rightarrow> state \<Rightarrow> state" where
  "resume StartMedia (GotStream st) s = start_granted (ensureLocalMedia_resolved st s)"
| "resume (CreateMedia p k) (GotStream st) s =
     createPeerConnection_attach p st k (ensureLocalMedia_resolved st s)"
| "resume (MatchedCreateOffer p) (GotSdp d) s = suspend (MatchedSetLocal p d) s"
| "resume (MatchedSetLocal p d) Settled s =
     emit (E_rtc_offer d) (upd_pc p (\<lambda>pc. pc\<lparr>localDescription := Some d\<rparr>) s)"
| "resume (OfferSetRemote p d) Settled s =
     suspend (OfferCreateAnswer p) (upd_pc p (\<lambda>pc. pc\<lparr>remoteDescription := Some d\<rparr>) s)"
| "resume (OfferCreateAnswer p) (GotSdp d) s = suspend (OfferSetLocal p d) s"
| "resume (OfferSetLocal p d) Settled s =
     emit (E_rtc_answer d) (upd_pc p (\<lambda>pc. pc\<lparr>localDescription := Some d\<rparr>) s)"
| "resume (AnswerSetRemote p d) Settled s =
     upd_pc p (\<lambda>pc. pc\<lparr>remoteDescription := Some d\<rparr>) s"
| "resume (IceAdd p c) Settled s =
     upd_pc p (\<lambda>pc. pc\<lparr>remoteCandidates := remoteCandidates pc @ [c]\<rparr>) s"
| "resume (IceAdd p c) (Threw e) s = s"
| "resume t (Threw e) s = reject e s"
| "resume t r s = s"

text \<open>
  The browser settles the call of the \<open>i\<close>-th suspended handler. An index with no handler,
  or an outcome the call cannot have, is not an input the component can receive; the model
  leaves the state as it is.
\<close>

definition settle :: "nat \<Rightarrow> outcome \<Rightarrow> state \<Rightarrow> state" where
  "settle i r s =
     (if i < length (tasks s) \<and> accepts (tasks s ! i) r
      then resume (tasks s ! i) r (s\<lparr>tasks := take i (tasks s) @ drop (Suc i) (tasks s)\<rparr>)
      else s)"

subsection \<open>Everything that can happen to the component\<close>

datatype event =
    Mount string
  | Unmount
  | Render
  | Start
  | Next
  | Stop
  | Socket in_event
  | Pc pcid pc_event
  | Settle nat outcome

fun step :: "event \<Rightarrow> state \<Rightarrow> state" where
  "step (Mount cid) s = mount cid s"
| "step Unmount s = unmount s"
| "step Render s = render_stage s"
| "step Start s = start s"
| "step Next s = next_fn s"
| "step Stop s = stop s"
| "step (Socket e) s = on_socket e s"
| "step (Pc p e) s = on_pc p e s"
| "step (Settle i r) s = settle i r s"

fun run :: "event list \<Rightarrow> state \<Rightarrow> state" where
  "run [] s = s"
| "run (e # es) s = run es (step e s)"

subsection \<open>Observations on a state\<close>

text \<open>
  The component has no variable for the phase of the matchmaking state machine; what it
  shows is the status line. \<open>phase_of\<close> reads the phase off the status texts the handlers
  set: the texts set before a find request has been sent (or after \<open>stop\<close> and \<open>reset\<close>) are
  \<open>Idle\<close>, the texts set while a find request is outstanding are \<open>Searching\<close>. The texts of
  the connection notices (\<open>connect\<close>, \<open>welcome\<close>, \<open>reconnected\<close>) and of the other transport
  states carry no phase.
\<close>

datatype phase = Idle | Searching | Matched | InCall

definition phase_of :: "string \<Rightarrow> phase option" where
  "phase_of t =
     (if t \<in> set [''Idle'', ''Requesting camera...'', ''Stopped'', ''Reset''] then Some Idle
      else if t \<in> set [''Searching match...'', ''Next...'', ''Waiting for partner...'',
                        ''Still waiting... (no partner yet)'', ''Partner left. Waiting...'']
      then Some Searching
      else if t \<in> set [''Matched as caller'', ''Matched as callee''] then Some Matched
      else if t = ''RTC: connected'' then Some InCall
      else None)"

text \<open>
  The transports that are open, and those among them that \<open>pcRef\<close> does not refer to: the
  component has no way left to close the latter.
\<close>

definition open_ids :: "state \<Rightarrow> pcid list" where
  "open_ids s = filter (\<lambda>i. \<not> closed (heap s ! i)) [0..<length (heap s)]"

definition leaked :: "state \<Rightarrow> pcid list" where
  "leaked s = filter (\<lambda>i. \<not> closed (heap s ! i) \<and> pcRef s \<noteq> Some i) [0..<length (heap s)]"

text \<open>
  The part of a state \<open>leaked\<close> depends on, and the event sequences in which \<open>matched\<close>
  arrives only while no peer connection is referenced.
\<close>

definition shape :: "state \<Rightarrow> bool list \<times> pcid option" where
  "shape s = (map closed (heap s), pcRef s)"

fun is_matched :: "event \<Rightarrow> bool" where
  "is_matched (Socket (In_matched r)) = True"
| "is_matched e = False"

fun disciplined :: "event list \<Rightarrow> state \<Rightarrow> bool" where
  "disciplined [] s = True"
| "disciplined (e # es) s =
     ((if is_matched e then pcRef s = None else True) \<and> disciplined es (step e s))"

text \<open>A fresh connection after \<open>createPeerConnection\<close> has attached the stream \<open>st\<close>.\<close>

definition attached :: "stream \<Rightarrow> RTCPeerConnection" where
  "attached st = new_pc\<lparr>senders := [st], ontrack := True, onicecandidate := True,
                        onconnectionstatechange := True\<rparr>"

subsection \<open>Scenarios\<close>

text \<open>
  A client that has mounted and started with media granted; the same client matched as
  callee; the same client matched as caller, after its offer went out; and a client that
  receives \<open>matched\<close> a second time with no departure in between.
\<close>

definition searching_state :: state where
  "searching_state = run [Mount ''c1'', Start, Settle 0 (GotStream 7)] init"

definition callee_state :: state where
  "callee_state = step (Socket (In_matched (Some callee))) searching_state"

definition caller_offered_state :: state where
  "caller_offered_state =
     run [Socket (In_matched (Some caller)), Settle 0 (GotSdp ''offer''), Settle 0 Settled]
       searching_state"

definition matched_twice :: "event list" where
  "matched_twice = [Mount ''c1'', Start, Settle 0 (GotStream 7),
                    Socket (In_matched (Some callee)), Socket (In_matched (Some callee))]"

text \<open>
  A queue update that was under way when the user stopped, and a chat message that was under
  way when the user left the match.
\<close>

definition late_queue_status :: "event list" where
  "late_queue_status = [Mount ''c1'', Start, Settle 0 (GotStream 7), Stop,
                        Socket (In_queue_status \<lparr>position = 3, etaSec = 10, waitedSec = 2\<rparr>)]"

definition late_chat_message :: "event list" where
  "late_chat_message = [Mount ''c1'', Start, Settle 0 (GotStream 7),
                        Socket (In_matched (Some callee)), Stop,
                        Socket (In_chat_message ''m1'' ''hi'' 5)]"

section \<open>Basic facts\<close>

lemmas prim_defs = setStatus_def emit_def emit_ref_def reject_def suspend_def upd_pc_def
  new_pc_def pc_close_def

lemmas handler_defs = cleanupPeerConnection_def resetConversationUI_def
  ensureLocalMedia_resolved_def createPeerConnection_attach_def createPeerConnection_def
  start_granted_def start_def next_fn_def stop_def mount_def unmount_def on_matched_def
  on_partner_left_def on_reset_def on_chat_message_def on_rtc_offer_def on_rtc_answer_def
  on_rtc_ice_def

lemmas scenario_defs = init_def searching_state_def callee_state_def caller_offered_state_def
  matched_twice_def

lemmas matched_run_defs = on_matched_def createPeerConnection_def
  createPeerConnection_attach_def Let_def settle_def suspend_def emit_def upd_pc_def
  setStatus_def resetConversationUI_def ensureLocalMedia_resolved_def attached_def new_pc_def

lemmas offer_run_defs = on_rtc_offer_def createPeerConnection_def
  createPeerConnection_attach_def Let_def settle_def suspend_def emit_def reject_def upd_pc_def
  ensureLocalMedia_resolved_def attached_def new_pc_def

lemma searching_state_eq:
  "searching_state = \<lparr> socketRef = True, pcRef = None, heap = [], localStreamRef = Some 7,
      localVideoRef = None, remoteVideoRef = None, status = ''Searching match...'', role = None,
      queueInfo = None, chat = [], draft = [], outbox = [E_hello ''c1'', E_find], tasks = [],
      unhandled = [] \<rparr>"
  by (simp add: scenario_defs settle_def prim_defs handler_defs)

lemma callee_state_eq:
  "callee_state = \<lparr> socketRef = True, pcRef = Some 0,
      heap = [\<lparr> onicecandidate = True, ontrack = True, onconnectionstatechange = True,
                connectionState = ''new'', closed = False, senders = [7],
                localDescription = None, remoteDescription = None, remoteCandidates = [] \<rparr>],
      localStreamRef = Some 7,
      localVideoRef = None, remoteVideoRef = None, status = ''Matched as callee'',
      role = Some callee,
      queueInfo = None, chat = [], draft = [], outbox = [E_hello ''c1'', E_find], tasks = [],
      unhandled = [] \<rparr>"
  by (simp add: callee_state_def searching_state_eq settle_def prim_defs handler_defs)

lemma caller_offered_state_eq:
  "caller_offered_state = \<lparr> socketRef = True, pcRef = Some 0,
      heap = [\<lparr> onicecandidate = True, ontrack = True, onconnectionstatechange = True,
                connectionState = ''new'', closed = False, senders = [7],
                localDescription = Some ''offer'', remoteDescription = None,
                remoteCandidates = [] \<rparr>],
      localStreamRef = Some 7,
      localVideoRef = None, remoteVideoRef = None, status = ''Matched as caller'',
      role = Some caller,
      queueInfo = None, chat = [], draft = [],
      outbox = [E_hello ''c1'', E_find, E_rtc_offer ''offer''], tasks = [],
      unhandled = [] \<rparr>"
  by (simp add: caller_offered_state_def searching_state_eq settle_def prim_defs handler_defs)

lemma run_append: "run (xs @ ys) s = run ys (run xs s)"
  by (induction xs arbitrary: s) simp_all

lemma settle_suspended:
  "settle (length (tasks s)) r (suspend t s) = (if accepts t r then resume t r s else suspend t s)"
  by (simp add: settle_def suspend_def)

subsection \<open>The parts of \<open>start\<close>\<close>

lemma start_denied:
  "localStreamRef s = None \<Longrightarrow>
     run [Start, Settle (length (tasks s)) (Threw e)] s
       = s\<lparr>status := ''Requesting camera...'', unhandled := unhandled s @ [e]\<rparr>"
  by (simp add: start_def settle_def suspend_def setStatus_def reject_def)

lemma start_uncached:
  "localStreamRef s = None \<Longrightarrow>
     run [Start, Settle (length (tasks s)) (GotStream st)] s
       = start_granted (ensureLocalMedia_resolved st (setStatus ''Requesting camera...'' s))"
  by (simp add: start_def settle_def suspend_def setStatus_def)

lemma start_uncached_state:
  "localStreamRef s = None \<Longrightarrow>
     run [Start, Settle (length (tasks s)) (GotStream st)] s
       = s\<lparr>localStreamRef := Some st,
            localVideoRef := (case localVideoRef s of None \<Rightarrow> None
                              | Some src \<Rightarrow> Some (Some st)),
            status := ''Searching match...'', chat := [], draft := [], queueInfo := None,
            outbox := outbox s @ (if socketRef s then [E_find] else [])\<rparr>"
  by (simp only: start_uncached)
     (simp add: start_granted_def ensureLocalMedia_resolved_def setStatus_def emit_ref_def
        emit_def resetConversationUI_def split: option.splits)

lemma start_cached:
  "localStreamRef s = Some st \<Longrightarrow>
     run [Start, Settle (length (tasks s)) r] s
       = start_granted (setStatus ''Requesting camera...'' s)"
  by (simp add: start_def settle_def start_granted_def setStatus_def emit_ref_def emit_def
        resetConversationUI_def)

lemma start_granted_fields:
  "queueInfo (start_granted s) = None" "chat (start_granted s) = []"
  by (simp_all add: start_granted_def emit_ref_def emit_def resetConversationUI_def
        setStatus_def)

lemma start_then_granted_fields:
  "queueInfo (run [Start, Settle (length (tasks s)) (GotStream st)] s) = None"
  "chat (run [Start, Settle (length (tasks s)) (GotStream st)] s) = []"
  by (cases "localStreamRef s"; simp only: start_cached start_uncached start_granted_fields)+

subsection \<open>What the handlers leave alone, and what teardown does\<close>

lemma after_create_keeps:
  "queueInfo (after_create k p s) = queueInfo s"
  "chat (after_create k p s) = chat s"
  "status (after_create k p s) = status s"
  "role (after_create k p s) = role s"
  by (cases k; simp add: suspend_def)+

lemma createPeerConnection_keeps:
  "queueInfo (createPeerConnection k s) = queueInfo s"
  "chat (createPeerConnection k s) = chat s"
  "status (createPeerConnection k s) = status s"
  "role (createPeerConnection k s) = role s"
  by (simp_all add: createPeerConnection_def createPeerConnection_attach_def Let_def
        after_create_keeps suspend_def reject_def upd_pc_def split: option.splits)

lemma teardown_ops_fields:
  "queueInfo (next_fn s) = None" "queueInfo (stop s) = None"
  "chat (next_fn s) = []" "chat (stop s) = []"
  "chat (on_partner_left s) = []" "chat (on_reset s) = []"
  by (simp_all add: next_fn_def stop_def on_partner_left_def on_reset_def emit_ref_def emit_def
        resetConversationUI_def)

lemma on_matched_fields:
  "queueInfo (on_matched r s) = None" "chat (on_matched r s) = []"
  by (simp_all add: on_matched_def createPeerConnection_keeps setStatus_def
        resetConversationUI_def)

lemma cleanup_fields:
  "pcRef (cleanupPeerConnection s) = None"
  "role (cleanupPeerConnection s) = None"
  "outbox (cleanupPeerConnection s) = outbox s"
  "status (cleanupPeerConnection s) = status s"
  "tasks (cleanupPeerConnection s) = tasks s"
  "unhandled (cleanupPeerConnection s) = unhandled s"
  "length (heap (cleanupPeerConnection s)) = length (heap s)"
  by (cases "pcRef s"; cases "remoteVideoRef s";
      simp add: cleanupPeerConnection_def upd_pc_def Let_def)+

lemma cleanup_closes:
  "pcRef s = Some p \<Longrightarrow> p < length (heap s) \<Longrightarrow>
     heap (cleanupPeerConnection s)
       = (heap s)[p := (heap s ! p)\<lparr>onicecandidate := False, ontrack := False,
                                     onconnectionstatechange := False,
                                     closed := True, connectionState := ''closed''\<rparr>]"
  by (cases "remoteVideoRef s")
     (simp_all add: cleanupPeerConnection_def upd_pc_def Let_def pc_close_def)

lemma hooks_released:
  assumes "pcRef s = Some p" and "p < length (heap s)"
  shows "step (Pc p (IceCandidate x)) (cleanupPeerConnection s) = cleanupPeerConnection s"
    and "step (Pc p (Track st)) (cleanupPeerConnection s) = cleanupPeerConnection s"
  using assms
  by (simp_all add: cleanup_closes cleanup_fields)

section \<open>Transports: who closes what\<close>

text \<open>
  Every handler keeps \<open>leaked\<close> empty, except \<open>matched\<close> arriving while a peer connection is
  referenced: \<open>cleanupPeerConnection\<close> closes the referenced connection before it drops the
  reference, the \<open>rtc-offer\<close> handler constructs a connection only when none is referenced,
  and nothing else changes which connections are closed.
\<close>

lemma leaked_empty_iff:
  "leaked s = [] \<longleftrightarrow> (\<forall>i<length (heap s). closed (heap s ! i) \<or> pcRef s = Some i)"
  by (auto simp add: leaked_def filter_empty_conv)

lemma leaked_shape: "shape s' = shape s \<Longrightarrow> leaked s' = leaked s"
proof -
  assume e: "shape s' = shape s"
  then have m: "map closed (heap s') = map closed (heap s)" and r: "pcRef s' = pcRef s"
    by (simp_all add: shape_def)
  from m have l: "length (heap s') = length (heap s)" by (rule map_eq_imp_length_eq)
  have "closed (heap s' ! i) = closed (heap s ! i)" if "i < length (heap s)" for i
    using that m l by (metis nth_map)
  then show ?thesis
    unfolding leaked_def l r by (intro filter_cong) auto
qed

lemma shape_prims [simp]:
  "shape (setStatus t s) = shape s"
  "shape (emit e s) = shape s"
  "shape (emit_ref e s) = shape s"
  "shape (reject x s) = shape s"
  "shape (suspend k s) = shape s"
  "shape (resetConversationUI s) = shape s"
  "shape (ensureLocalMedia_resolved st s) = shape s"
  by (simp_all add: shape_def setStatus_def emit_def emit_ref_def reject_def suspend_def
        resetConversationUI_def ensureLocalMedia_resolved_def Let_def split: option.splits)

lemma shape_fields [simp]:
  "shape (s\<lparr>tasks := xs\<rparr>) = shape s"
  "shape (s\<lparr>queueInfo := q\<rparr>) = shape s"
  "shape (s\<lparr>role := r\<rparr>) = shape s"
  "shape (s\<lparr>chat := c\<rparr>) = shape s"
  "shape (s\<lparr>socketRef := b\<rparr>) = shape s"
  "shape (s\<lparr>remoteVideoRef := v\<rparr>) = shape s"
  by (simp_all add: shape_def)

lemma shape_upd_pc:
  "(\<And>pc. closed (f pc) = closed pc) \<Longrightarrow> shape (upd_pc p f s) = shape s"
  by (simp add: shape_def upd_pc_def map_update list_update_same_conv)

lemma shape_after_create [simp]: "shape (after_create k p s) = shape s"
  by (cases k) simp_all

lemma shape_attach [simp]: "shape (createPeerConnection_attach p st k s) = shape s"
  by (simp add: createPeerConnection_attach_def shape_upd_pc)

lemma shape_start [simp]: "shape (start_granted s) = shape s" "shape (start s) = shape s"
  by (simp_all add: start_granted_def start_def Let_def split: option.splits)

lemma shape_resume [simp]: "shape (resume t r s) = shape s"
  by (cases "(t, r, s)" rule: resume.cases) (simp_all add: shape_upd_pc)

lemma shape_settle [simp]: "shape (settle i r s) = shape s"
  by (simp add: settle_def)

lemma shape_on_pc [simp]: "shape (on_pc p e s) = shape s"
  by (cases e) (simp_all add: shape_upd_pc Let_def split: option.splits)

lemma shape_signalling:
  "shape (on_rtc_answer d s) = shape s"
  "shape (on_rtc_ice c s) = shape s"
  "shape (on_chat_message i t n s) = shape s"
  by (cases "pcRef s"; simp add: on_rtc_answer_def on_rtc_ice_def on_chat_message_def shape_def
        suspend_def)+

lemma leaked_frame:
  "leaked (setStatus t s) = leaked s"
  "leaked (emit e s) = leaked s"
  "leaked (emit_ref e s) = leaked s"
  "leaked (resetConversationUI s) = leaked s"
  "leaked (s\<lparr>queueInfo := q\<rparr>) = leaked s"
  "leaked (s\<lparr>role := r\<rparr>) = leaked s"
  "leaked (s\<lparr>socketRef := b\<rparr>) = leaked s"
  by (rule leaked_shape, simp)+

lemma pcRef_frame:
  "pcRef (setStatus t s) = pcRef s"
  "pcRef (resetConversationUI s) = pcRef s"
  by (simp_all add: setStatus_def resetConversationUI_def)

lemma no_leak_cleanup: "leaked s = [] \<Longrightarrow> leaked (cleanupPeerConnection s) = []"
  by (cases "pcRef s"; cases "remoteVideoRef s")
     (auto simp add: leaked_empty_iff cleanupPeerConnection_def upd_pc_def Let_def pc_close_def
        nth_list_update)

lemma no_leak_create:
  "leaked s = [] \<Longrightarrow> pcRef s = None \<Longrightarrow> leaked (createPeerConnection k s) = []"
proof -
  assume a: "leaked s = []" "pcRef s = None"
  let ?s1 = "s\<lparr>heap := heap s @ [new_pc], pcRef := Some (length (heap s))\<rparr>"
  have "shape (createPeerConnection k s) = shape ?s1"
    by (simp add: createPeerConnection_def Let_def split: option.splits)
  then have "leaked (createPeerConnection k s) = leaked ?s1" by (rule leaked_shape)
  moreover have "leaked ?s1 = []"
    using a by (auto simp add: leaked_empty_iff nth_append)
  ultimately show ?thesis by simp
qed

lemma no_leak_matched:
  "leaked s = [] \<Longrightarrow> pcRef s = None \<Longrightarrow> leaked (on_matched r s) = []"
  unfolding on_matched_def
  by (rule no_leak_create) (simp_all add: leaked_frame pcRef_frame)

lemma no_leak_partner_left: "leaked s = [] \<Longrightarrow> leaked (on_partner_left s) = []"
  unfolding on_partner_left_def
  by (simp only: leaked_frame no_leak_cleanup)

lemma no_leak_reset: "leaked s = [] \<Longrightarrow> leaked (on_reset s) = []"
  unfolding on_reset_def
  by (simp only: leaked_frame no_leak_cleanup)

lemma no_leak_rtc_offer: "leaked s = [] \<Longrightarrow> leaked (on_rtc_offer d s) = []"
proof (cases "pcRef s")
  case None
  assume "leaked s = []"
  with None show ?thesis by (simp only: on_rtc_offer_def option.case no_leak_create)
next
  case (Some p)
  assume a: "leaked s = []"
  from Some have "shape (on_rtc_offer d s) = shape s"
    by (simp only: on_rtc_offer_def option.case shape_prims)
  from leaked_shape [OF this] a show ?thesis by simp
qed

lemma no_leak_socket:
  assumes "leaked s = []" and "\<not> (is_matched (Socket e) \<and> pcRef s \<noteq> None)"
  shows "leaked (on_socket e s) = []"
proof (cases e)
  case (In_matched r)
  with assms(2) have "pcRef s = None" by simp
  with assms(1) show ?thesis by (simp only: In_matched on_socket.simps no_leak_matched)
next
  case In_partner_left
  with assms(1) show ?thesis by (simp only: on_socket.simps no_leak_partner_left)
next
  case In_reset
  with assms(1) show ?thesis by (simp only: on_socket.simps no_leak_reset)
next
  case (In_rtc_offer d)
  with assms(1) show ?thesis by (simp only: on_socket.simps no_leak_rtc_offer)
next
  case (In_rtc_answer d)
  with assms(1) show ?thesis
    by (simp only: on_socket.simps leaked_shape [OF shape_signalling(1)])
next
  case (In_rtc_ice c)
  with assms(1) show ?thesis
    by (simp only: on_socket.simps leaked_shape [OF shape_signalling(2)])
next
  case (In_chat_message i t n)
  with assms(1) show ?thesis
    by (simp only: on_socket.simps leaked_shape [OF shape_signalling(3)])
next
  case In_connect
  with assms(1) show ?thesis by (simp only: on_socket.simps leaked_frame)
next
  case In_welcome
  with assms(1) show ?thesis by (simp only: on_socket.simps leaked_frame)
next
  case In_reconnected
  with assms(1) show ?thesis by (simp only: on_socket.simps leaked_frame)
next
  case In_waiting
  with assms(1) show ?thesis by (simp only: on_socket.simps leaked_frame)
next
  case (In_queue_status q)
  with assms(1) show ?thesis by (simp only: on_socket.simps leaked_frame)
next
  case In_queue_timeout
  with assms(1) show ?thesis by (simp only: on_socket.simps leaked_frame)
qed

lemma no_leak_step:
  assumes "leaked s = []" and "\<not> (is_matched e \<and> pcRef s \<noteq> None)"
  shows "leaked (step e s) = []"
proof (cases e)
  case (Socket x)
  with assms show ?thesis by (simp add: no_leak_socket)
next
  case (Mount c)
  have "shape (mount c s) = shape s" by (simp add: mount_def)
  from leaked_shape [OF this] assms(1) Mount show ?thesis by simp
next
  case Unmount
  then show ?thesis by (simp add: unmount_def no_leak_cleanup leaked_frame assms(1))
next
  case Render
  have "shape (render_stage s) = shape s" by (simp add: render_stage_def shape_def)
  from leaked_shape [OF this] assms(1) Render show ?thesis by simp
next
  case Start
  have "shape (start s) = shape s" by simp
  from leaked_shape [OF this] assms(1) Start show ?thesis by simp
next
  case Next
  then show ?thesis by (simp add: next_fn_def no_leak_cleanup leaked_frame assms(1))
next
  case Stop
  then show ?thesis by (simp add: stop_def no_leak_cleanup leaked_frame assms(1))
next
  case (Pc p x)
  have "shape (on_pc p x s) = shape s" by simp
  from leaked_shape [OF this] assms(1) Pc show ?thesis by simp
next
  case (Settle i r)
  have "shape (settle i r s) = shape s" by simp
  from leaked_shape [OF this] assms(1) Settle show ?thesis by simp
qed

lemma no_leak_run: "leaked s = [] \<Longrightarrow> disciplined es s \<Longrightarrow> leaked (run es s) = []"
proof (induction es arbitrary: s)
  case Nil
  then show ?case by simp
next
  case (Cons e es)
  from Cons.prems have "\<not> (is_matched e \<and> pcRef s \<noteq> None)" and d: "disciplined es (step e s)"
    by (auto split: if_splits)
  with Cons.prems(1) have "leaked (step e s) = []" by (simp add: no_leak_step)
  with d show ?case by (simp add: Cons.IH)
qed

lemma at_most_one_open: "leaked s = [] \<Longrightarrow> length (open_ids s) \<le> 1"
proof (cases "pcRef s")
  case None
  assume "leaked s = []"
  with None have "open_ids s = []"
    by (simp add: leaked_empty_iff open_ids_def filter_empty_conv)
  then show ?thesis by simp
next
  case (Some p)
  assume "leaked s = []"
  with Some have "set (open_ids s) \<subseteq> {p}"
    by (auto simp add: leaked_empty_iff open_ids_def)
  then have "card (set (open_ids s)) \<le> card {p}"
    by (intro card_mono) simp_all
  moreover have "distinct (open_ids s)" by (simp add: open_ids_def)
  ultimately show ?thesis by (simp add: distinct_card)
qed

lemma no_leak_from_init:
  "disciplined es init \<Longrightarrow> length (open_ids (run es init)) \<le> 1"
  by (rule at_most_one_open, rule no_leak_run) (simp_all add: leaked_def init_def)

text \<open>
  Claim C1: at most one live peer connection exists at any instant, because every path that
  constructs one has closed the previous transport, released its hooks and cleared the role
  first. The \<open>matched\<close> handler does not: it calls \<open>createPeerConnection\<close>, which overwrites
  \<open>pcRef\<close>, without \<open>cleanupPeerConnection\<close>. After a second \<open>matched\<close> two transports are
  open, the first with its three hooks still installed; \<open>stop\<close> then closes only the second,
  and the first, which nothing refers to any more, keeps emitting its candidates on the
  socket.
\<close>

theorem transport_leak_on_second_matched:
  "pcRef (run matched_twice init) = Some 1
   \<and> open_ids (run matched_twice init) = [0, 1]
   \<and> leaked (run matched_twice init) = [0]
   \<and> onicecandidate (heap (run matched_twice init) ! 0)
   \<and> ontrack (heap (run matched_twice init) ! 0)
   \<and> onconnectionstatechange (heap (run matched_twice init) ! 0)
   \<and> pcRef (run (matched_twice @ [Stop]) init) = None
   \<and> open_ids (run (matched_twice @ [Stop]) init) = [0]
   \<and> outbox (run (matched_twice @ [Stop, Pc 0 (IceCandidate (Some ''x''))]) init)
       = [E_hello ''c1'', E_find, E_stop, E_rtc_ice ''x'']"
  by (simp add: scenario_defs open_ids_def leaked_def settle_def prim_defs handler_defs upt_rec)

section \<open>start\<close>

text \<open>
  Claim C2, as stated, fails where media acquisition is refused: \<open>start\<close> has no handler for
  the rejection of \<open>getUserMedia\<close>. The status stays at the progress text set before the
  attempt, and the rejection leaves \<open>start\<close> unhandled.
\<close>

theorem start_media_denied_counterexample:
  "status (run [Mount ''c1'', Start, Settle 0 (Threw ''NotAllowedError'')] init)
     = ''Requesting camera...''
   \<and> unhandled (run [Mount ''c1'', Start, Settle 0 (Threw ''NotAllowedError'')] init)
     = [''NotAllowedError'']"
  by (simp add: init_def settle_def prim_defs handler_defs)

text \<open>
  Claim C2, amended: when acquisition fails, \<open>start\<close> leaves the status at
  \<open>Requesting camera...\<close> and its rejection is not caught; nothing else changes, so no find
  request is sent, the phase read off the status is still \<open>Idle\<close>, the stream cache stays empty
  and a later \<open>start\<close> asks for the media again. When acquisition succeeds, \<open>start\<close> caches the
  stream, clears chat, draft and queue status, sets the status to \<open>Searching match...\<close> and
  emits one \<open>find\<close> on the socket.
\<close>

theorem start_media_outcomes:
  assumes "localStreamRef s = None"
  shows "run [Start, Settle (length (tasks s)) (Threw e)] s
           = s\<lparr>status := ''Requesting camera...'', unhandled := unhandled s @ [e]\<rparr>
       \<and> phase_of (status (run [Start, Settle (length (tasks s)) (Threw e)] s)) = Some Idle
       \<and> run [Start, Settle (length (tasks s)) (Threw e),
               Start, Settle (length (tasks s)) (GotStream st)] s
           = (run [Start, Settle (length (tasks s)) (GotStream st)] s)
               \<lparr>unhandled := unhandled s @ [e]\<rparr>
       \<and> run [Start, Settle (length (tasks s)) (GotStream st)] s
           = s\<lparr>localStreamRef := Some st,
                localVideoRef := (case localVideoRef s of None \<Rightarrow> None
                                  | Some src \<Rightarrow> Some (Some st)),
                status := ''Searching match...'', chat := [], draft := [], queueInfo := None,
                outbox := outbox s @ (if socketRef s then [E_find] else [])\<rparr>
       \<and> phase_of (status (run [Start, Settle (length (tasks s)) (GotStream st)] s))
           = Some Searching"
proof -
  let ?n = "length (tasks s)"
  let ?d = "s\<lparr>status := ''Requesting camera...'', unhandled := unhandled s @ [e]\<rparr>"
  have denied: "run [Start, Settle ?n (Threw e)] s = ?d"
    by (rule start_denied [OF assms])
  have again: "localStreamRef ?d = None" "length (tasks ?d) = ?n"
    using assms by simp_all
  have granted: "run [Start, Settle ?n (GotStream st)] s
       = s\<lparr>localStreamRef := Some st,
            localVideoRef := (case localVideoRef s of None \<Rightarrow> None
                              | Some src \<Rightarrow> Some (Some st)),
            status := ''Searching match...'', chat := [], draft := [], queueInfo := None,
            outbox := outbox s @ (if socketRef s then [E_find] else [])\<rparr>"
    by (rule start_uncached_state [OF assms])
  have "run [Start, Settle ?n (Threw e), Start, Settle ?n (GotStream st)] s
          = run [Start, Settle ?n (GotStream st)] (run [Start, Settle ?n (Threw e)] s)"
    using run_append [of "[Start, Settle ?n (Threw e)]" "[Start, Settle ?n (GotStream st)]" s]
    by simp
  also have "\<dots> = run [Start, Settle (length (tasks ?d)) (GotStream st)] ?d"
    by (simp only: denied again)
  also have "\<dots> = (run [Start, Settle ?n (GotStream st)] s)\<lparr>unhandled := unhandled s @ [e]\<rparr>"
    by (simp only: start_uncached_state [OF again(1)] granted) simp
  finally have retry: "run [Start, Settle ?n (Threw e), Start, Settle ?n (GotStream st)] s
          = (run [Start, Settle ?n (GotStream st)] s)\<lparr>unhandled := unhandled s @ [e]\<rparr>" .
  have p1: "phase_of (status (run [Start, Settle ?n (Threw e)] s)) = Some Idle"
    by (simp only: denied) (simp add: phase_of_def)
  have p2: "phase_of (status (run [Start, Settle ?n (GotStream st)] s)) = Some Searching"
    by (simp only: granted) (simp add: phase_of_def)
  from denied p1 retry granted p2 show ?thesis by (intro conjI)
qed

theorem start_media_outcomes_witness:
  "localStreamRef (mount ''c1'' init) = None
   \<and> run [Start, Settle 0 (Threw ''NotAllowedError'')] (mount ''c1'' init)
       = (mount ''c1'' init)\<lparr>status := ''Requesting camera...'',
                               unhandled := [''NotAllowedError'']\<rparr>
   \<and> outbox (run [Start, Settle 0 (GotStream 7)] (mount ''c1'' init))
       = [E_hello ''c1'', E_find]"
proof -
  have h: "localStreamRef (mount ''c1'' init) = None"
    by (simp add: init_def mount_def emit_def)
  have n: "length (tasks (mount ''c1'' init)) = 0"
    and o: "outbox (mount ''c1'' init) = [E_hello ''c1'']"
    and u: "unhandled (mount ''c1'' init) = []"
    and k: "socketRef (mount ''c1'' init)"
    by (simp_all add: init_def mount_def emit_def)
  note t = start_media_outcomes [OF h, of "''NotAllowedError''" 7, unfolded n]
  from t have a: "run [Start, Settle 0 (Threw ''NotAllowedError'')] (mount ''c1'' init)
       = (mount ''c1'' init)\<lparr>status := ''Requesting camera...'',
                               unhandled := [''NotAllowedError'']\<rparr>"
    by (simp only: u append_Nil)
  from t have "outbox (run [Start, Settle 0 (GotStream 7)] (mount ''c1'' init))
       = outbox (mount ''c1'' init) @ (if socketRef (mount ''c1'' init) then [E_find] else [])"
    by simp
  then have b: "outbox (run [Start, Settle 0 (GotStream 7)] (mount ''c1'' init))
       = [E_hello ''c1'', E_find]"
    by (simp only: o k if_True append.simps)
  from h a b show ?thesis by (intro conjI)
qed

section \<open>next\<close>

text \<open>
  Claim C3, as stated, fails: \<open>next\<close> emits \<open>next\<close> before \<open>find\<close> whether or not a match is
  active.
\<close>

theorem next_without_session_counterexample:
  "pcRef (run [Mount ''c1''] init) = None
   \<and> outbox (run [Mount ''c1'', Next] init) = [E_hello ''c1'', E_next, E_find]"
  by (simp add: init_def prim_defs handler_defs)

text \<open>
  Claim C3, amended: with no peer connection referenced, \<open>next\<close> emits \<open>next\<close> followed by
  \<open>find\<close> (nothing when the socket ref is unset), sets the status to \<open>Next...\<close>, clears role,
  chat, draft and queue status, and changes nothing else: no transport is touched and no
  error is raised.
\<close>

theorem next_without_session:
  assumes "pcRef s = None"
  shows "next_fn s
           = s\<lparr>remoteVideoRef := (case remoteVideoRef s of None \<Rightarrow> None
                                   | Some src \<Rightarrow> Some None),
                status := ''Next...'', role := None, queueInfo := None, chat := [],
                draft := [],
                outbox := outbox s @ (if socketRef s then [E_next, E_find] else [])\<rparr>"
  using assms by (simp add: prim_defs handler_defs split: option.splits)

theorem next_without_session_witness:
  "pcRef searching_state = None
   \<and> outbox (next_fn searching_state) = [E_hello ''c1'', E_find, E_next, E_find]
   \<and> unhandled (next_fn searching_state) = []
   \<and> heap (next_fn searching_state) = []"
proof -
  have h: "pcRef searching_state = None" by (simp add: searching_state_eq)
  from next_without_session [OF h] h show ?thesis by (simp add: searching_state_eq)
qed

section \<open>Queue status\<close>

text \<open>
  Claim C4, as stated, fails: the \<open>queue-status\<close> handler stores its payload in whatever
  state it arrives, here after \<open>stop\<close> has taken the client back to idle.
\<close>

theorem queue_status_outside_searching_counterexample:
  "status (run late_queue_status init) = ''Stopped''
   \<and> phase_of (status (run late_queue_status init)) = Some Idle
   \<and> queueInfo (run late_queue_status init)
       = Some \<lparr>position = 3, etaSec = 10, waitedSec = 2\<rparr>"
  by (simp add: late_queue_status_def init_def settle_def prim_defs handler_defs phase_of_def)

text \<open>
  Claim C4, amended: the stored queue status is \<open>null\<close> right after \<open>start\<close> has acquired
  media, after \<open>next\<close>, after \<open>stop\<close> and after \<open>matched\<close>; an inbound \<open>queue-status\<close> replaces
  it with its payload in every state and leaves the status line alone.
\<close>

theorem queue_status_cleared_and_replaced:
  "queueInfo (run [Start, Settle (length (tasks s)) (GotStream st)] s) = None
   \<and> queueInfo (step Next s) = None
   \<and> queueInfo (step Stop s) = None
   \<and> queueInfo (step (Socket (In_matched r)) s) = None
   \<and> queueInfo (step (Socket (In_queue_status q)) s) = Some q
   \<and> status (step (Socket (In_queue_status q)) s) = status s"
  by (simp add: start_then_granted_fields teardown_ops_fields on_matched_fields
        del: run.simps)

section \<open>Inbound offer\<close>

text \<open>
  Claim C5, as stated, fails in its second half: the \<open>rtc-offer\<close> handler never looks at
  the role. A caller whose own offer has gone out hands an inbound offer to the transport
  like a callee would, and when the transport takes it, commits it and emits an answer.
\<close>

theorem caller_answers_inbound_offer_counterexample:
  "role caller_offered_state = Some caller
   \<and> outbox caller_offered_state = [E_hello ''c1'', E_find, E_rtc_offer ''offer'']
   \<and> tasks (step (Socket (In_rtc_offer ''remote'')) caller_offered_state)
       = [OfferSetRemote 0 ''remote'']
   \<and> outbox (run [Socket (In_rtc_offer ''remote''), Settle 0 Settled,
                  Settle 0 (GotSdp ''answer''), Settle 0 Settled] caller_offered_state)
       = [E_hello ''c1'', E_find, E_rtc_offer ''offer'', E_rtc_answer ''answer'']
   \<and> remoteDescription
        (heap (run [Socket (In_rtc_offer ''remote''), Settle 0 Settled,
                    Settle 0 (GotSdp ''answer''), Settle 0 Settled] caller_offered_state) ! 0)
       = Some ''remote''"
  by (simp add: caller_offered_state_eq offer_run_defs)

text \<open>
  Claim C5, amended: the \<open>rtc-offer\<close> handler does the same for every role. It uses the
  referenced peer connection, or constructs one (acquiring media if needed) when none is
  referenced; when the transport accepts the offer and the answer, the remote description
  and the local answer are committed and exactly one \<open>rtc-answer\<close> is emitted; when the
  transport rejects the offer, nothing is emitted and the rejection is left unhandled.
\<close>

theorem inbound_offer_any_role:
  "on_rtc_offer d (s\<lparr>role := r\<rparr>) = (on_rtc_offer d s)\<lparr>role := r\<rparr>
   \<and> (pcRef s = Some p \<and> p < length (heap s) \<longrightarrow>
        run [Socket (In_rtc_offer d), Settle (length (tasks s)) Settled,
             Settle (length (tasks s)) (GotSdp a), Settle (length (tasks s)) Settled] s
          = s\<lparr>heap := (heap s)[p := (heap s ! p)\<lparr>remoteDescription := Some d,
                    localDescription := Some a\<rparr>],
               outbox := outbox s @ [E_rtc_answer a]\<rparr>
        \<and> run [Socket (In_rtc_offer d), Settle (length (tasks s)) (Threw e)] s
          = s\<lparr>unhandled := unhandled s @ [e]\<rparr>)
   \<and> (pcRef s = None \<and> localStreamRef s = Some st \<longrightarrow>
        run [Socket (In_rtc_offer d), Settle (length (tasks s)) Settled,
             Settle (length (tasks s)) (GotSdp a), Settle (length (tasks s)) Settled] s
          = s\<lparr>pcRef := Some (length (heap s)),
               heap := heap s @ [(attached st)\<lparr>remoteDescription := Some d,
                    localDescription := Some a\<rparr>],
               outbox := outbox s @ [E_rtc_answer a]\<rparr>)
   \<and> (pcRef s = None \<and> localStreamRef s = None \<longrightarrow>
        run [Socket (In_rtc_offer d), Settle (length (tasks s)) (GotStream st),
             Settle (length (tasks s)) Settled, Settle (length (tasks s)) (GotSdp a),
             Settle (length (tasks s)) Settled] s
          = s\<lparr>pcRef := Some (length (heap s)),
               heap := heap s @ [(attached st)\<lparr>remoteDescription := Some d,
                    localDescription := Some a\<rparr>],
               localStreamRef := Some st,
               localVideoRef := (case localVideoRef s of None \<Rightarrow> None
                                 | Some src \<Rightarrow> Some (Some st)),
               outbox := outbox s @ [E_rtc_answer a]\<rparr>)"
proof (intro conjI impI; (elim conjE)?)
  show "on_rtc_offer d (s\<lparr>role := r\<rparr>) = (on_rtc_offer d s)\<lparr>role := r\<rparr>"
    by (rule state.equality; cases "pcRef s"; cases "localStreamRef s")
       (simp_all add: offer_run_defs)
next
  assume c: "pcRef s = Some p" "p < length (heap s)"
  show "run [Socket (In_rtc_offer d), Settle (length (tasks s)) Settled,
             Settle (length (tasks s)) (GotSdp a), Settle (length (tasks s)) Settled] s
          = s\<lparr>heap := (heap s)[p := (heap s ! p)\<lparr>remoteDescription := Some d,
                    localDescription := Some a\<rparr>],
               outbox := outbox s @ [E_rtc_answer a]\<rparr>"
    by (rule state.equality) (simp_all add: c offer_run_defs)
  show "run [Socket (In_rtc_offer d), Settle (length (tasks s)) (Threw e)] s
          = s\<lparr>unhandled := unhandled s @ [e]\<rparr>"
    by (rule state.equality) (simp_all add: c offer_run_defs)
next
  assume c: "pcRef s = None" "localStreamRef s = Some st"
  show "run [Socket (In_rtc_offer d), Settle (length (tasks s)) Settled,
             Settle (length (tasks s)) (GotSdp a), Settle (length (tasks s)) Settled] s
          = s\<lparr>pcRef := Some (length (heap s)),
               heap := heap s @ [(attached st)\<lparr>remoteDescription := Some d,
                    localDescription := Some a\<rparr>],
               outbox := outbox s @ [E_rtc_answer a]\<rparr>"
    by (rule state.equality) (simp_all add: c offer_run_defs)
next
  assume c: "pcRef s = None" "localStreamRef s = None"
  show "run [Socket (In_rtc_offer d), Settle (length (tasks s)) (GotStream st),
             Settle (length (tasks s)) Settled, Settle (length (tasks s)) (GotSdp a),
             Settle (length (tasks s)) Settled] s
          = s\<lparr>pcRef := Some (length (heap s)),
               heap := heap s @ [(attached st)\<lparr>remoteDescription := Some d,
                    localDescription := Some a\<rparr>],
               localStreamRef := Some st,
               localVideoRef := (case localVideoRef s of None \<Rightarrow> None
                                 | Some src \<Rightarrow> Some (Some st)),
               outbox := outbox s @ [E_rtc_answer a]\<rparr>"
    by (rule state.equality; cases "localVideoRef s") (simp_all add: c offer_run_defs)
qed

theorem inbound_offer_any_role_witness:
  "pcRef callee_state = Some 0 \<and> 0 < length (heap callee_state)
   \<and> outbox (run [Socket (In_rtc_offer ''remote''), Settle 0 Settled,
                  Settle 0 (GotSdp ''answer''), Settle 0 Settled] callee_state)
       = [E_hello ''c1'', E_find, E_rtc_answer ''answer'']
   \<and> unhandled (run [Socket (In_rtc_offer ''remote''), Settle 0 (Threw ''InvalidStateError'')]
                  callee_state)
       = [''InvalidStateError'']
   \<and> pcRef searching_state = None \<and> localStreamRef searching_state = Some 7
   \<and> outbox (run [Socket (In_rtc_offer ''remote''), Settle 0 Settled,
                  Settle 0 (GotSdp ''answer''), Settle 0 Settled] searching_state)
       = [E_hello ''c1'', E_find, E_rtc_answer ''answer'']
   \<and> pcRef (mount ''c1'' init) = None \<and> localStreamRef (mount ''c1'' init) = None
   \<and> outbox (run [Socket (In_rtc_offer ''remote''), Settle 0 (GotStream 7), Settle 0 Settled,
                  Settle 0 (GotSdp ''answer''), Settle 0 Settled] (mount ''c1'' init))
       = [E_hello ''c1'', E_rtc_answer ''answer'']"
proof -
  have p1: "pcRef callee_state = Some 0" and q1: "0 < length (heap callee_state)"
    and n1: "length (tasks callee_state) = 0"
    and o1: "outbox callee_state = [E_hello ''c1'', E_find]"
    and u1: "unhandled callee_state = []"
    by (simp_all add: callee_state_eq)
  have p2: "pcRef searching_state = None" and q2: "localStreamRef searching_state = Some 7"
    and n2: "length (tasks searching_state) = 0"
    and o2: "outbox searching_state = [E_hello ''c1'', E_find]"
    by (simp_all add: searching_state_eq)
  have p3: "pcRef (mount ''c1'' init) = None" and q3: "localStreamRef (mount ''c1'' init) = None"
    and n3: "length (tasks (mount ''c1'' init)) = 0"
    and o3: "outbox (mount ''c1'' init) = [E_hello ''c1'']"
    by (simp_all add: init_def mount_def emit_def)
  note t1 = inbound_offer_any_role [where d = "''remote''" and s = callee_state and p = 0
      and a = "''answer''" and e = "''InvalidStateError''", unfolded n1,
      THEN conjunct2, THEN conjunct1, rule_format, OF conjI [OF p1 q1]]
  note t2 = inbound_offer_any_role [where d = "''remote''" and s = searching_state
      and a = "''answer''" and st = 7, unfolded n2,
      THEN conjunct2, THEN conjunct2, THEN conjunct1, rule_format, OF conjI [OF p2 q2]]
  note t3 = inbound_offer_any_role [where d = "''remote''" and s = "mount ''c1'' init"
      and a = "''answer''" and st = 7, unfolded n3,
      THEN conjunct2, THEN conjunct2, THEN conjunct2, rule_format, OF conjI [OF p3 q3]]
  have a: "outbox (run [Socket (In_rtc_offer ''remote''), Settle 0 Settled,
                  Settle 0 (GotSdp ''answer''), Settle 0 Settled] callee_state)
       = [E_hello ''c1'', E_find, E_rtc_answer ''answer'']"
    by (simp only: t1 [THEN conjunct1]) (simp add: o1)
  have b: "unhandled (run [Socket (In_rtc_offer ''remote''),
                  Settle 0 (Threw ''InvalidStateError'')] callee_state)
       = [''InvalidStateError'']"
    by (simp only: t1 [THEN conjunct2]) (simp add: u1)
  have c: "outbox (run [Socket (In_rtc_offer ''remote''), Settle 0 Settled,
                  Settle 0 (GotSdp ''answer''), Settle 0 Settled] searching_state)
       = [E_hello ''c1'', E_find, E_rtc_answer ''answer'']"
    by (simp only: t2) (simp add: o2)
  have d: "outbox (run [Socket (In_rtc_offer ''remote''), Settle 0 (GotStream 7),
                  Settle 0 Settled, Settle 0 (GotSdp ''answer''), Settle 0 Settled]
                  (mount ''c1'' init))
       = [E_hello ''c1'', E_rtc_answer ''answer'']"
    by (simp only: t3) (simp add: o3)
  show ?thesis by (intro conjI p1 q1 a b p2 q2 c p3 q3 d)
qed

section \<open>Chat\<close>

text \<open>
  Claim C6, as stated, fails in its second half: the \<open>chat-message\<close> handler appends in
  every state, here after \<open>stop\<close> has closed the only transport.
\<close>

theorem chat_without_session_counterexample:
  "pcRef (run late_chat_message init) = None
   \<and> open_ids (run late_chat_message init) = []
   \<and> chat (run late_chat_message init)
       = [\<lparr>msg_id = ''m1'', msg_text = ''hi'', ts = 5, mine = False\<rparr>]"
  by (simp add: late_chat_message_def init_def settle_def prim_defs handler_defs open_ids_def)

text \<open>
  Claim C6, amended: the chat sequence is empty right after \<open>start\<close> has acquired media and
  right after \<open>next\<close>, \<open>stop\<close>, \<open>matched\<close>, \<open>partner-left\<close> and \<open>reset\<close> are handled; an inbound
  \<open>chat-message\<close> is appended as a remote message in every state, whether or not a peer
  connection exists.
\<close>

theorem chat_cleared_at_boundaries:
  "chat (run [Start, Settle (length (tasks s)) (GotStream st)] s) = []
   \<and> chat (step Next s) = []
   \<and> chat (step Stop s) = []
   \<and> chat (step (Socket (In_matched r)) s) = []
   \<and> chat (step (Socket In_partner_left) s) = []
   \<and> chat (step (Socket In_reset) s) = []
   \<and> chat (step (Socket (In_chat_message i t n)) s)
       = chat s @ [\<lparr>msg_id = i, msg_text = t, ts = n, mine = False\<rparr>]"
  by (simp add: start_then_granted_fields teardown_ops_fields on_matched_fields
        on_chat_message_def del: run.simps)

section \<open>matched\<close>

text \<open>
  Claim C7: on \<open>matched\<close> with role caller the client constructs a fresh peer connection,
  bound to that role, and once the offer is created and committed as the local description
  it emits exactly one \<open>rtc-offer\<close>; with role callee it constructs the connection and emits
  nothing. Both hold with the stream already cached and with the stream acquired on the way.
\<close>

theorem matched_caller_offers_once:
  "(localStreamRef s = Some st \<longrightarrow>
      run [Socket (In_matched (Some caller)), Settle (length (tasks s)) (GotSdp d),
           Settle (length (tasks s)) Settled] s
        = s\<lparr>pcRef := Some (length (heap s)),
             heap := heap s @ [(attached st)\<lparr>localDescription := Some d\<rparr>],
             status := ''Matched as caller'', role := Some caller, queueInfo := None,
             chat := [], draft := [], outbox := outbox s @ [E_rtc_offer d]\<rparr>
      \<and> step (Socket (In_matched (Some callee))) s
        = s\<lparr>pcRef := Some (length (heap s)), heap := heap s @ [attached st],
             status := ''Matched as callee'', role := Some callee, queueInfo := None,
             chat := [], draft := []\<rparr>)
   \<and> (localStreamRef s = None \<longrightarrow>
      run [Socket (In_matched (Some caller)), Settle (length (tasks s)) (GotStream st),
           Settle (length (tasks s)) (GotSdp d), Settle (length (tasks s)) Settled] s
        = s\<lparr>pcRef := Some (length (heap s)),
             heap := heap s @ [(attached st)\<lparr>localDescription := Some d\<rparr>],
             localStreamRef := Some st,
             localVideoRef := (case localVideoRef s of None \<Rightarrow> None
                               | Some src \<Rightarrow> Some (Some st)),
             status := ''Matched as caller'', role := Some caller, queueInfo := None,
             chat := [], draft := [], outbox := outbox s @ [E_rtc_offer d]\<rparr>
      \<and> run [Socket (In_matched (Some callee)), Settle (length (tasks s)) (GotStream st)] s
        = s\<lparr>pcRef := Some (length (heap s)), heap := heap s @ [attached st],
             localStreamRef := Some st,
             localVideoRef := (case localVideoRef s of None \<Rightarrow> None
                               | Some src \<Rightarrow> Some (Some st)),
             status := ''Matched as callee'', role := Some callee, queueInfo := None,
             chat := [], draft := []\<rparr>)"
proof (intro conjI impI)
  {
    assume c: "localStreamRef s = Some st"
    show "run [Socket (In_matched (Some caller)), Settle (length (tasks s)) (GotSdp d),
           Settle (length (tasks s)) Settled] s
        = s\<lparr>pcRef := Some (length (heap s)),
             heap := heap s @ [(attached st)\<lparr>localDescription := Some d\<rparr>],
             status := ''Matched as caller'', role := Some caller, queueInfo := None,
             chat := [], draft := [], outbox := outbox s @ [E_rtc_offer d]\<rparr>"
      by (rule state.equality) (simp_all add: c matched_run_defs)
    show "step (Socket (In_matched (Some callee))) s
        = s\<lparr>pcRef := Some (length (heap s)), heap := heap s @ [attached st],
             status := ''Matched as callee'', role := Some callee, queueInfo := None,
             chat := [], draft := []\<rparr>"
      by (rule state.equality) (simp_all add: c matched_run_defs)
  }
  {
    assume c: "localStreamRef s = None"
    show "run [Socket (In_matched (Some caller)), Settle (length (tasks s)) (GotStream st),
           Settle (length (tasks s)) (GotSdp d), Settle (length (tasks s)) Settled] s
        = s\<lparr>pcRef := Some (length (heap s)),
             heap := heap s @ [(attached st)\<lparr>localDescription := Some d\<rparr>],
             localStreamRef := Some st,
             localVideoRef := (case localVideoRef s of None \<Rightarrow> None
                               | Some src \<Rightarrow> Some (Some st)),
             status := ''Matched as caller'', role := Some caller, queueInfo := None,
             chat := [], draft := [], outbox := outbox s @ [E_rtc_offer d]\<rparr>"
      by (rule state.equality; cases "localVideoRef s") (simp_all add: c matched_run_defs)
    show "run [Socket (In_matched (Some callee)), Settle (length (tasks s)) (GotStream st)] s
        = s\<lparr>pcRef := Some (length (heap s)), heap := heap s @ [attached st],
             localStreamRef := Some st,
             localVideoRef := (case localVideoRef s of None \<Rightarrow> None
                               | Some src \<Rightarrow> Some (Some st)),
             status := ''Matched as callee'', role := Some callee, queueInfo := None,
             chat := [], draft := []\<rparr>"
      by (rule state.equality; cases "localVideoRef s") (simp_all add: c matched_run_defs)
  }
qed

theorem matched_caller_offers_once_witness:
  "localStreamRef searching_state = Some 7
   \<and> outbox (run [Socket (In_matched (Some caller)), Settle 0 (GotSdp ''offer''),
                  Settle 0 Settled] searching_state)
       = [E_hello ''c1'', E_find, E_rtc_offer ''offer'']
   \<and> outbox (step (Socket (In_matched (Some callee))) searching_state)
       = [E_hello ''c1'', E_find]
   \<and> localStreamRef (mount ''c1'' init) = None
   \<and> outbox (run [Socket (In_matched (Some caller)), Settle 0 (GotStream 7),
                  Settle 0 (GotSdp ''offer''), Settle 0 Settled] (mount ''c1'' init))
       = [E_hello ''c1'', E_rtc_offer ''offer'']"
proof -
  have h1: "localStreamRef searching_state = Some 7" and n1: "length (tasks searching_state) = 0"
    and o1: "outbox searching_state = [E_hello ''c1'', E_find]"
    by (simp_all add: searching_state_eq)
  have h2: "localStreamRef (mount ''c1'' init) = None"
    and n2: "length (tasks (mount ''c1'' init)) = 0"
    and o2: "outbox (mount ''c1'' init) = [E_hello ''c1'']"
    by (simp_all add: init_def mount_def emit_def)
  note t1 = matched_caller_offers_once [of searching_state 7 "''offer''", unfolded n1,
      THEN conjunct1, rule_format, OF h1]
  note t2 = matched_caller_offers_once [of "mount ''c1'' init" 7 "''offer''", unfolded n2,
      THEN conjunct2, rule_format, OF h2]
  have a: "outbox (run [Socket (In_matched (Some caller)), Settle 0 (GotSdp ''offer''),
                  Settle 0 Settled] searching_state)
       = [E_hello ''c1'', E_find, E_rtc_offer ''offer'']"
    by (simp only: t1 [THEN conjunct1]) (simp add: o1)
  have b: "outbox (step (Socket (In_matched (Some callee))) searching_state)
       = [E_hello ''c1'', E_find]"
    by (simp only: t1 [THEN conjunct2]) (simp add: o1)
  have c: "outbox (run [Socket (In_matched (Some caller)), Settle 0 (GotStream 7),
                  Settle 0 (GotSdp ''offer''), Settle 0 Settled] (mount ''c1'' init))
       = [E_hello ''c1'', E_rtc_offer ''offer'']"
    by (simp only: t2 [THEN conjunct1]) (simp add: o2)
  from h1 a b h2 c show ?thesis by (intro conjI)
qed

section \<open>partner-left and reset\<close>

text \<open>
  Claim C8: \<open>partner-left\<close> and \<open>reset\<close> both close the referenced transport, release its
  hooks, clear the reference, the role and the chat; \<open>partner-left\<close> then shows a searching
  status and emits a fresh \<open>find\<close>, \<open>reset\<close> shows an idle status and emits nothing.
\<close>

theorem partner_left_and_reset_differ:
  "status (step (Socket In_partner_left) s) = ''Partner left. Waiting...''
   \<and> phase_of (status (step (Socket In_partner_left) s)) = Some Searching
   \<and> outbox (step (Socket In_partner_left) s) = outbox s @ [E_find]
   \<and> pcRef (step (Socket In_partner_left) s) = None
   \<and> role (step (Socket In_partner_left) s) = None
   \<and> chat (step (Socket In_partner_left) s) = []
   \<and> status (step (Socket In_reset) s) = ''Reset''
   \<and> phase_of (status (step (Socket In_reset) s)) = Some Idle
   \<and> outbox (step (Socket In_reset) s) = outbox s
   \<and> pcRef (step (Socket In_reset) s) = None
   \<and> role (step (Socket In_reset) s) = None
   \<and> chat (step (Socket In_reset) s) = []
   \<and> (pcRef s = Some p \<and> p < length (heap s) \<longrightarrow>
        heap (step (Socket In_partner_left) s)
          = (heap s)[p := (heap s ! p)\<lparr>onicecandidate := False, ontrack := False,
                                        onconnectionstatechange := False,
                                        closed := True, connectionState := ''closed''\<rparr>]
        \<and> heap (step (Socket In_reset) s) = heap (step (Socket In_partner_left) s))"
proof -
  have l: "on_partner_left s
      = (cleanupPeerConnection (setStatus ''Partner left. Waiting...'' s))
          \<lparr>chat := [], draft := [], outbox := outbox s @ [E_find]\<rparr>"
    by (simp add: on_partner_left_def emit_def resetConversationUI_def cleanup_fields
          setStatus_def)
  have r: "on_reset s = (cleanupPeerConnection (setStatus ''Reset'' s))\<lparr>chat := [], draft := []\<rparr>"
    by (simp add: on_reset_def resetConversationUI_def)
  have h: "heap (cleanupPeerConnection (setStatus t s))
          = (heap s)[p := (heap s ! p)\<lparr>onicecandidate := False, ontrack := False,
                                        onconnectionstatechange := False,
                                        closed := True, connectionState := ''closed''\<rparr>]"
    if "pcRef s = Some p" "p < length (heap s)" for t
    using cleanup_closes [of "setStatus t s" p] that by (simp add: setStatus_def)
  show ?thesis
    by (simp add: l r cleanup_fields h phase_of_def) (simp add: setStatus_def)
qed

theorem partner_left_and_reset_differ_witness:
  "pcRef callee_state = Some 0 \<and> 0 < length (heap callee_state)
   \<and> closed (heap (step (Socket In_partner_left) callee_state) ! 0)
   \<and> \<not> onicecandidate (heap (step (Socket In_partner_left) callee_state) ! 0)
   \<and> closed (heap (step (Socket In_reset) callee_state) ! 0)
   \<and> outbox (step (Socket In_partner_left) callee_state) = [E_hello ''c1'', E_find, E_find]
   \<and> outbox (step (Socket In_reset) callee_state) = [E_hello ''c1'', E_find]"
proof -
  have h: "pcRef callee_state = Some 0 \<and> 0 < length (heap callee_state)"
    and o: "outbox callee_state = [E_hello ''c1'', E_find]"
    by (simp_all add: callee_state_eq)
  note t = partner_left_and_reset_differ [where s = callee_state and p = 0]
  from t h have hp: "heap (step (Socket In_partner_left) callee_state)
          = (heap callee_state)[0 := (heap callee_state ! 0)\<lparr>onicecandidate := False,
               ontrack := False, onconnectionstatechange := False,
               closed := True, connectionState := ''closed''\<rparr>]"
    and hr: "heap (step (Socket In_reset) callee_state)
          = heap (step (Socket In_partner_left) callee_state)"
    by blast+
  from t have op: "outbox (step (Socket In_partner_left) callee_state)
          = outbox callee_state @ [E_find]"
    and orr: "outbox (step (Socket In_reset) callee_state) = outbox callee_state"
    by blast+
  have hc: "heap callee_state \<noteq> []" using h by auto
  show ?thesis
    using h hc by (simp only: hr hp op orr o) (simp add: callee_state_eq)
qed

section \<open>Late events\<close>

text \<open>
  Claim C9: after teardown no peer connection is referenced, and an inbound answer or an
  inbound candidate that arrives then changes nothing: no state change, nothing emitted, no
  error, no browser call left pending. The hooks of the transport that was torn down are
  released, so what it still reports changes nothing either.
\<close>

theorem late_events_ignored:
  "pcRef (cleanupPeerConnection s) = None
   \<and> (pcRef s = None \<longrightarrow>
        step (Socket (In_rtc_answer d)) s = s \<and> step (Socket (In_rtc_ice c)) s = s)
   \<and> (pcRef s = Some p \<and> p < length (heap s) \<longrightarrow>
        step (Pc p (IceCandidate x)) (cleanupPeerConnection s) = cleanupPeerConnection s
        \<and> step (Pc p (Track st)) (cleanupPeerConnection s) = cleanupPeerConnection s)"
proof (intro conjI impI; (elim conjE)?)
  show "pcRef (cleanupPeerConnection s) = None" by (rule cleanup_fields)
next
  assume "pcRef s = None"
  then show "step (Socket (In_rtc_answer d)) s = s" "step (Socket (In_rtc_ice c)) s = s"
    by (simp_all add: on_rtc_answer_def on_rtc_ice_def)
next
  assume "pcRef s = Some p" "p < length (heap s)"
  then show "step (Pc p (IceCandidate x)) (cleanupPeerConnection s) = cleanupPeerConnection s"
    "step (Pc p (Track st)) (cleanupPeerConnection s) = cleanupPeerConnection s"
    by (rule hooks_released)+
qed

theorem late_events_ignored_witness:
  "pcRef (step Next callee_state) = None
   \<and> step (Socket (In_rtc_answer ''late'')) (step Next callee_state) = step Next callee_state
   \<and> step (Socket (In_rtc_ice ''late'')) (step Next callee_state) = step Next callee_state
   \<and> pcRef callee_state = Some 0 \<and> 0 < length (heap callee_state)
   \<and> step (Pc 0 (IceCandidate (Some ''late''))) (cleanupPeerConnection callee_state)
       = cleanupPeerConnection callee_state"
proof -
  have h: "pcRef (step Next callee_state) = None"
    by (simp add: next_fn_def emit_ref_def emit_def resetConversationUI_def cleanup_fields)
  have p: "pcRef callee_state = Some 0" and q: "0 < length (heap callee_state)"
    by (simp_all add: callee_state_eq)
  note t1 = late_events_ignored [where s = "step Next callee_state" and d = "''late''"
      and c = "''late''", THEN conjunct2, THEN conjunct1, rule_format, OF h]
  note t2 = late_events_ignored [where s = callee_state and p = 0 and x = "Some ''late''",
      THEN conjunct2, THEN conjunct2, rule_format, OF conjI [OF p q]]
  show ?thesis
    by (intro conjI h p q t1 [THEN conjunct1] t1 [THEN conjunct2] t2 [THEN conjunct1])
qed

text \<open>
  Claim C10: when the transport refuses an inbound candidate, the handler swallows the
  failure; the state after the refusal is the state before the candidate arrived.
\<close>

theorem failed_candidate_discarded:
  assumes "pcRef s = Some p"
  shows "run [Socket (In_rtc_ice c), Settle (length (tasks s)) (Threw e)] s = s"
  using assms by (simp add: on_rtc_ice_def settle_def suspend_def)

theorem failed_candidate_discarded_witness:
  "pcRef callee_state = Some 0
   \<and> run [Socket (In_rtc_ice ''early''), Settle 0 (Threw ''InvalidStateError'')] callee_state
       = callee_state"
proof -
  have h: "pcRef callee_state = Some 0" and n: "length (tasks callee_state) = 0"
    by (simp_all add: callee_state_eq)
  from failed_candidate_discarded [OF h, where c = "''early''"
      and e = "''InvalidStateError''", unfolded n] h
  show ?thesis by (intro conjI)
qed

end
